theory Spec2Isabelle
  imports Main "HOL-Library.Word" "HOL-Library.Code_Target_Numeral"
begin

unbundle bit_operations_syntax

section \<open>Processes: observable effects and exit status\<close>

text \<open>
  Both scripts are one-shot processes. A run is described by the ordered list of its
  observable effects (reading a file, sleeping, writing to standard output) and by the
  way it ends: \<open>sys.exit(n)\<close> or falling off the end of the script (exit code 0), or an
  exception nobody catches, on which the interpreter prints a traceback to standard
  error and exits with code 1.
\<close>

type_synonym byte = "8 word"

datatype error = OSError | ValueError | OverflowError | BinasciiError

datatype event = ReadFile string | Sleep int | Write string

datatype status = Exit nat | Uncaught error

record run =
  events :: "event list"
  status :: status

definition exit_code :: "run \<Rightarrow> nat" where
  "exit_code r = (case status r of Exit n \<Rightarrow> n | Uncaught e \<Rightarrow> 1)"

fun written :: "event \<Rightarrow> string" where
  "written (Write s) = s"
| "written (ReadFile p) = []"
| "written (Sleep n) = []"

definition stdout :: "run \<Rightarrow> string" where
  "stdout r = concat (map written (events r))"

fun is_read :: "event \<Rightarrow> bool" where
  "is_read (ReadFile p) = True"
| "is_read (Sleep n) = False"
| "is_read (Write s) = False"

definition newline :: char where
  "newline = CHR 0x0A"

text \<open>
  \<open>print(s)\<close> writes \<open>s\<close> followed by the value of \<open>end\<close>, which is a newline unless
  the call gives another one.
\<close>

definition py_print :: "string \<Rightarrow> string \<Rightarrow> event" where
  "py_print s ending = Write (s @ ending)"

section \<open>Base64 (the library function \<open>base64.b64encode\<close>)\<close>

text \<open>
  \<open>base64.b64encode\<close> is the standard library's encoder: standard alphabet, padding
  with \<open>=\<close>, no line breaks. Three input bytes give four characters; a last group of
  one or two bytes is filled with zero bits and padded. The six-bit values are cut out
  of the bytes with shifts and masks, as the library does. Its result (a \<open>bytes\<close>
  object of ASCII characters, which the script turns into a \<open>str\<close> with
  \<open>.decode("ascii")\<close>) is a string here.
\<close>

definition b64_alphabet :: string where
  "b64_alphabet = ''ABCDEFGHIJKLMNOPQRSTUVWXYZabcdefghijklmnopqrstuvwxyz0123456789+/''"

definition b64_char :: "byte \<Rightarrow> char" where
  "b64_char s = b64_alphabet ! unat (s AND 63)"

fun b64encode :: "byte list \<Rightarrow> string" where
  "b64encode [] = []"
| "b64encode [a] =
     [b64_char (drop_bit 2 a), b64_char (push_bit 4 (a AND 3)), CHR ''='', CHR ''='']"
| "b64encode [a, b] =
     [b64_char (drop_bit 2 a), b64_char (push_bit 4 (a AND 3) OR drop_bit 4 b),
      b64_char (push_bit 2 (b AND 15)), CHR ''='']"
| "b64encode (a # b # c # rest) =
     [b64_char (drop_bit 2 a), b64_char (push_bit 4 (a AND 3) OR drop_bit 4 b),
      b64_char (push_bit 2 (b AND 15) OR drop_bit 6 c), b64_char (c AND 63)]
     @ b64encode rest"

section \<open>Base64 as RFC 4648 words it\<close>

text \<open>
  RFC 4648, section 4: the input is taken in groups of 24 bits, three bytes put
  together, first byte on top; each group is read as four 6-bit numbers, each of them
  the index of a character of the alphabet. A last group of one byte is filled with
  four zero bits and gives two characters and \<open>==\<close>; a last group of two bytes is
  filled with two zero bits and gives three characters and \<open>=\<close>. Here \<open>g\<close> is the
  group as a number, and \<open>sextet g k\<close> the character of its \<open>k\<close>-th 6-bit number,
  counted from the right.
\<close>

definition sextet :: "nat \<Rightarrow> nat \<Rightarrow> char" where
  "sextet g k = b64_alphabet ! (g div 64 ^ k mod 64)"

fun rfc4648_base64 :: "byte list \<Rightarrow> string" where
  "rfc4648_base64 [] = []"
| "rfc4648_base64 [a] =
     (let g = unat a * 2 ^ 4
      in [sextet g 1, sextet g 0, CHR ''='', CHR ''=''])"
| "rfc4648_base64 [a, b] =
     (let g = (unat a * 2 ^ 8 + unat b) * 2 ^ 2
      in [sextet g 2, sextet g 1, sextet g 0, CHR ''=''])"
| "rfc4648_base64 (a # b # c # rest) =
     (let g = unat a * 2 ^ 16 + unat b * 2 ^ 8 + unat c
      in [sextet g 3, sextet g 2, sextet g 1, sextet g 0])
     @ rfc4648_base64 rest"

section \<open>Base64 decoding (the library function \<open>base64.b64decode\<close>)\<close>

text \<open>
  The decoder that goes with the encoder, \<open>base64.b64decode\<close> as it is called with
  one argument: a character that is neither in the alphabet nor \<open>=\<close> is skipped (a
  line break, for one), four characters of the alphabet give three bytes, and padding
  that completes a group ends the decoding. \<open>quad_pos\<close> counts the characters of the
  group read so far, \<open>leftchar\<close> holds the bits not yet written out, \<open>pads\<close> counts
  the padding characters seen since the last character of the alphabet. Input that
  ends inside a group is an error.
\<close>

definition b64_index :: "char \<Rightarrow> byte option" where
  "b64_index c = map_of (zip b64_alphabet (map of_nat [0..<64])) c"

fun a2b_base64 :: "nat \<Rightarrow> byte \<Rightarrow> nat \<Rightarrow> string \<Rightarrow> byte list \<Rightarrow> error + byte list" where
  "a2b_base64 quad_pos leftchar pads [] out =
     (if quad_pos \<noteq> 0 then Inl BinasciiError else Inr out)"
| "a2b_base64 quad_pos leftchar pads (ch # cs) out =
     (if ch = CHR ''='' then
        (if quad_pos \<ge> 2 then
           (if quad_pos + (pads + 1) \<ge> 4 then Inr out
            else a2b_base64 quad_pos leftchar (pads + 1) cs out)
         else a2b_base64 quad_pos leftchar pads cs out)
      else
        (case b64_index ch of
           None \<Rightarrow> a2b_base64 quad_pos leftchar pads cs out
         | Some this_ch \<Rightarrow>
             (if quad_pos = 0 then a2b_base64 1 this_ch 0 cs out
              else if quad_pos = 1 then
                a2b_base64 2 (this_ch AND 15) 0 cs
                  (out @ [push_bit 2 leftchar OR drop_bit 4 this_ch])
              else if quad_pos = 2 then
                a2b_base64 3 (this_ch AND 3) 0 cs
                  (out @ [push_bit 4 leftchar OR drop_bit 2 this_ch])
              else
                a2b_base64 0 0 0 cs (out @ [push_bit 6 leftchar OR this_ch]))))"

definition b64decode :: "string \<Rightarrow> error + byte list" where
  "b64decode s = a2b_base64 0 0 0 s []"

section \<open>The Base64 file encoder (\<open>encode_base64.py\<close>)\<close>

text \<open>
  \<open>argv\<close> is \<open>sys.argv\<close>: the script's name, then the arguments. The file system is
  a partial map from paths to file contents; a path it does not map cannot be opened
  for reading (it does not exist, is a directory, is not readable), and \<open>open\<close> raises.
\<close>

definition encode_main :: "(string \<rightharpoonup> byte list) \<Rightarrow> string list \<Rightarrow> run" where
  "encode_main fs argv =
     (if length argv < 2 then
        \<lparr>events = [py_print [] []], status = Exit 0\<rparr>
      else
        let path = argv ! 1 in
        (case fs path of
           None \<Rightarrow> \<lparr>events = [ReadFile path], status = Uncaught OSError\<rparr>
         | Some data \<Rightarrow>
             \<lparr>events = [ReadFile path, py_print (b64encode data) [newline]],
              status = Exit 0\<rparr>))"

section \<open>The library function \<open>int\<close> on a string\<close>

text \<open>
  A Python string is a list of code points. \<open>int(s)\<close> reads base 10: white space
  around the number is skipped, one sign is allowed, the digits may be separated by
  single underscores, and anything else raises \<open>ValueError\<close>. White space and digits
  are those of Unicode (version 14.0, the one of CPython 3.11): a no-break space is
  skipped like a blank, and the decimal digits of every script count, each script's
  ten digits being ten code points in a row, from its zero. The control characters
  U+001C to U+001F are not skipped. A number of more than 4300 digits is refused, the
  interpreter's limit when nothing sets another.
\<close>

definition unicode_spaces :: "nat list" where
  "unicode_spaces =
     [9, 10, 11, 12, 13, 32, 133, 160, 5760, 8192, 8193, 8194, 8195, 8196, 8197, 8198,
      8199, 8200, 8201, 8202, 8232, 8233, 8239, 8287, 12288]"

definition py_isspace :: "nat \<Rightarrow> bool" where
  "py_isspace c = (c \<in> set unicode_spaces)"

definition decimal_zeros :: "nat list" where
  "decimal_zeros =
     [48, 1632, 1776, 1984, 2406, 2534, 2662, 2790, 2918, 3046, 3174, 3302, 3430, 3558,
      3664, 3792, 3872, 4160, 4240, 6112, 6160, 6470, 6608, 6784, 6800, 6992, 7088, 7232,
      7248, 42528, 43216, 43264, 43472, 43504, 43600, 44016, 65296, 66720, 68912, 69734,
      69872, 69942, 70096, 70384, 70736, 70864, 71248, 71360, 71472, 71904, 72016, 72784,
      73040, 73120, 92768, 92864, 93008, 120782, 120792, 120802, 120812, 120822, 123200,
      123632, 125264, 130032]"

definition to_decimal :: "nat \<Rightarrow> nat option" where
  "to_decimal c =
     map_option (\<lambda>z. c - z) (find (\<lambda>z. z \<le> c \<and> c < z + 10) decimal_zeros)"

definition int_max_str_digits :: nat where
  "int_max_str_digits = 4300"

text \<open>
  The scan over digits and underscores (code point 95): \<open>prev\<close> is the character
  before, \<open>v\<close> the value so far, \<open>n\<close> the number of digits so far. It stops at the
  first character that is neither, and fails on two underscores in a row and on an
  underscore at the end.
\<close>

fun scan_digits :: "nat \<Rightarrow> nat list \<Rightarrow> nat \<Rightarrow> nat \<Rightarrow> (nat \<times> nat \<times> nat list) option" where
  "scan_digits prev [] v n = (if prev = 95 then None else Some (v, n, []))"
| "scan_digits prev (c # cs) v n =
     (if c = 95 then
        (if prev = 95 then None else scan_digits c cs v n)
      else
        (case to_decimal c of
           Some d \<Rightarrow> scan_digits c cs (10 * v + d) (Suc n)
         | None \<Rightarrow> if prev = 95 then None else Some (v, n, c # cs)))"

text \<open>The sign is \<open>+\<close> (code point 43) or \<open>-\<close> (45).\<close>

definition py_int :: "nat list \<Rightarrow> error + int" where
  "py_int s =
     (let s1 = dropWhile py_isspace s;
          negative = (s1 \<noteq> [] \<and> hd s1 = 45);
          s2 = (if s1 \<noteq> [] \<and> (hd s1 = 43 \<or> hd s1 = 45) then tl s1 else s1)
      in if s2 \<noteq> [] \<and> hd s2 = 95 then Inl ValueError
         else (case scan_digits 0 s2 0 0 of
                 None \<Rightarrow> Inl ValueError
               | Some (v, n, rest) \<Rightarrow>
                   if n = 0 \<or> int_max_str_digits < n \<or> dropWhile py_isspace rest \<noteq> []
                   then Inl ValueError
                   else Inr (if negative then - int v else int v)))"

text \<open>A string of this file's characters as a Python string.\<close>

definition py_str :: "string \<Rightarrow> nat list" where
  "py_str s = map of_char s"

section \<open>The library function \<open>time.sleep\<close>\<close>

text \<open>
  \<open>time.sleep(secs)\<close> for an integer, as CPython 3.11 does it on Linux. The duration
  is converted to a signed 64-bit count of nanoseconds (\<open>OverflowError\<close> when it does
  not fit), and a negative duration is rejected with \<open>ValueError\<close>. The wait itself,
  \<open>pysleep\<close>, is a wait until a deadline on the monotonic clock, the clock's reading
  plus the duration, both in nanoseconds: when that sum does not fit 64 bits either,
  the system refuses the deadline and the call raises \<open>OSError\<close>.
\<close>

definition pysleep :: "nat \<Rightarrow> int \<Rightarrow> error + unit" where
  "pysleep monotonic timeout =
     (if 2 ^ 63 - 1 < int monotonic + timeout then Inl OSError else Inr ())"

definition time_sleep :: "nat \<Rightarrow> int \<Rightarrow> error + unit" where
  "time_sleep monotonic secs =
     (if secs * 10 ^ 9 < - (2 ^ 63) \<or> 2 ^ 63 - 1 < secs * 10 ^ 9 then Inl OverflowError
      else if secs < 0 then Inl ValueError
      else pysleep monotonic (secs * 10 ^ 9))"

section \<open>The timed sleeper (\<open>test_sleep.py\<close>)\<close>

text \<open>
  The script, first with the two library calls it makes as parameters: \<open>int_of\<close>
  stands for \<open>int\<close> on the first argument and \<open>sleep\<close> for \<open>time.sleep\<close>. An
  exception of either ends the run before anything is printed.
\<close>

definition sleeper_with :: "('a \<Rightarrow> error + int) \<Rightarrow> (int \<Rightarrow> error + unit) \<Rightarrow> 'a list \<Rightarrow> run" where
  "sleeper_with int_of sleep argv =
     (case (if length argv > 1 then int_of (argv ! 1) else Inr 5) of
        Inl e \<Rightarrow> \<lparr>events = [], status = Uncaught e\<rparr>
      | Inr seconds \<Rightarrow>
          (case sleep seconds of
             Inl e \<Rightarrow> \<lparr>events = [], status = Uncaught e\<rparr>
           | Inr u \<Rightarrow>
               \<lparr>events = [Sleep seconds, py_print ''done'' [newline]], status = Exit 0\<rparr>))"

text \<open>
  The script as it runs: \<open>argv\<close> is \<open>sys.argv\<close>, a list of Python strings, and
  \<open>monotonic\<close> is the reading of the monotonic clock when the script sleeps, in
  nanoseconds since the machine started, a 62-bit number (146 years).
\<close>

definition sleeper_main :: "62 word \<Rightarrow> nat list list \<Rightarrow> run" where
  "sleeper_main monotonic argv = sleeper_with py_int (time_sleep (unat monotonic)) argv"

section \<open>Bytes, six-bit groups and the alphabet\<close>

subsection \<open>Looking a character up in the alphabet\<close>

lemma distinct_alphabet: "distinct b64_alphabet"
  by (simp add: b64_alphabet_def)

lemma length_alphabet: "length b64_alphabet = 64"
  by (simp add: b64_alphabet_def)

lemma sextet_bound: "unat ((s :: byte) AND 63) < 64"
proof -
  have "unat (s AND 63) \<le> unat (63 :: byte)"
    by (rule word_and_le1 [THEN word_le_nat_alt [THEN iffD1]])
  then show ?thesis by simp
qed

lemma b64_index_char: "b64_index (b64_char s) = Some (s AND 63)"
proof -
  have lt: "unat (s AND 63) < 64" by (rule sextet_bound)
  have "map_of (zip b64_alphabet (map of_nat [0..<64])) (b64_alphabet ! unat (s AND 63))
        = Some ((map of_nat [0..<64] :: byte list) ! unat (s AND 63))"
    using lt by (intro map_of_zip_nth) (simp_all add: length_alphabet distinct_alphabet)
  also have "(map of_nat [0..<64] :: byte list) ! unat (s AND 63) = s AND 63"
    using lt by simp
  finally show ?thesis by (simp add: b64_index_def b64_char_def)
qed

lemma b64_char_in: "b64_char s \<in> set b64_alphabet"
  unfolding b64_char_def using sextet_bound [of s] by (simp add: length_alphabet)

lemma b64_char_not_pad: "b64_char s \<noteq> CHR ''=''"
proof
  assume "b64_char s = CHR ''=''"
  then have "CHR ''='' \<in> set b64_alphabet" using b64_char_in [of s] by simp
  then show False by (simp add: b64_alphabet_def)
qed

lemma b64_index_newline: "b64_index newline = None"
  by (simp add: b64_index_def b64_alphabet_def newline_def upt_rec_numeral)

subsection \<open>Three bytes from four six-bit groups\<close>

text \<open>
  The masks 63, 15 and 3 are \<open>mask 6\<close>, \<open>mask 4\<close> and \<open>mask 2\<close>; with them the
  equations below are equations between bits, proved bit by bit.
\<close>

lemma m63: "(63 :: byte) = mask 6"
  by (simp add: mask_eq_exp_minus_1)

lemma m15: "(15 :: byte) = mask 4"
  by (simp add: mask_eq_exp_minus_1)

lemma m3: "(3 :: byte) = mask 2"
  by (simp add: mask_eq_exp_minus_1)

lemma Suc2: "2 \<le> n \<Longrightarrow> Suc (Suc (n - 2)) = n"
  by simp

lemma byte1: "push_bit 2 (drop_bit 2 (a::byte) AND 63) OR drop_bit 4 ((push_bit 4 (a AND 3) OR drop_bit 4 b) AND 63) = a"
  unfolding m63 m15 m3
  apply (rule bit_word_eqI)
  subgoal for n
    by (cases "2 \<le> n"; cases "4 \<le> n"; cases "6 \<le> n") (auto simp add: bit_simps Suc2)
  done

lemma byte2: "push_bit 4 (((push_bit 4 ((a::byte) AND 3) OR drop_bit 4 b) AND 63) AND 15) OR drop_bit 2 ((push_bit 2 (b AND 15) OR drop_bit 6 c) AND 63) = b"
  unfolding m63 m15 m3
  apply (rule bit_word_eqI)
  subgoal for n
    by (cases "2 \<le> n"; cases "4 \<le> n"; cases "6 \<le> n") (auto simp add: bit_simps Suc2)
  done

lemma byte3: "push_bit 6 (((push_bit 2 ((b::byte) AND 15) OR drop_bit 6 c) AND 63) AND 3) OR ((c AND 63) AND 63) = c"
  unfolding m63 m15 m3
  apply (rule bit_word_eqI)
  subgoal for n
    by (cases "2 \<le> n"; cases "4 \<le> n"; cases "6 \<le> n") (auto simp add: bit_simps Suc2)
  done

lemma byte1_last: "push_bit 2 (drop_bit 2 (a::byte) AND 63) OR drop_bit 4 ((push_bit 4 (a AND 3)) AND 63) = a"
  unfolding m63 m15 m3
  apply (rule bit_word_eqI)
  subgoal for n
    by (cases "2 \<le> n"; cases "4 \<le> n"; cases "6 \<le> n") (auto simp add: bit_simps Suc2)
  done

lemma byte2_last: "push_bit 4 (((push_bit 4 ((a::byte) AND 3) OR drop_bit 4 b) AND 63) AND 15) OR drop_bit 2 ((push_bit 2 (b AND 15)) AND 63) = b"
  unfolding m63 m15 m3
  apply (rule bit_word_eqI)
  subgoal for n
    by (cases "2 \<le> n"; cases "4 \<le> n"; cases "6 \<le> n") (auto simp add: bit_simps Suc2)
  done

subsection \<open>The decoder on one group of the encoder\<close>

lemma a2b_quad:
  "a2b_base64 0 l p (b64_char s1 # b64_char s2 # b64_char s3 # b64_char s4 # cs) out =
     a2b_base64 0 0 0 cs
       (out @ [push_bit 2 (s1 AND 63) OR drop_bit 4 (s2 AND 63),
               push_bit 4 ((s2 AND 63) AND 15) OR drop_bit 2 (s3 AND 63),
               push_bit 6 ((s3 AND 63) AND 3) OR (s4 AND 63)])"
  by (simp add: b64_index_char b64_char_not_pad)

lemma a2b_pad1:
  "a2b_base64 0 l p (b64_char s1 # b64_char s2 # b64_char s3 # CHR ''='' # cs) out =
     Inr (out @ [push_bit 2 (s1 AND 63) OR drop_bit 4 (s2 AND 63),
                 push_bit 4 ((s2 AND 63) AND 15) OR drop_bit 2 (s3 AND 63)])"
  by (simp add: b64_index_char b64_char_not_pad)

lemma a2b_pad2:
  "a2b_base64 0 l p (b64_char s1 # b64_char s2 # CHR ''='' # CHR ''='' # cs) out =
     Inr (out @ [push_bit 2 (s1 AND 63) OR drop_bit 4 (s2 AND 63)])"
  by (simp add: b64_index_char b64_char_not_pad)

lemma newline_not_pad: "newline \<noteq> CHR ''=''"
  by (simp add: newline_def)

lemma a2b_b64encode:
  "a2b_base64 0 l p (b64encode bs @ [newline]) out = Inr (out @ bs)"
proof (induction bs arbitrary: l p out rule: b64encode.induct)
  case 1
  show ?case by (simp add: b64_index_newline newline_not_pad)
next
  case (2 a)
  show ?case by (simp only: b64encode.simps append_Cons a2b_pad2 byte1_last)
next
  case (3 a b)
  show ?case by (simp only: b64encode.simps append_Cons a2b_pad1 byte1 byte2_last)
next
  case (4 a b c rest)
  show ?case
    by (simp only: b64encode.simps append_Cons append_Nil append_assoc a2b_quad byte1 byte2 byte3 "4.IH")
qed

lemma b64decode_b64encode: "b64decode (b64encode bs @ [newline]) = Inr bs"
  by (simp add: b64decode_def a2b_b64encode)

subsection \<open>The six-bit groups as numbers\<close>

text \<open>
  The value of each six-bit group that the shifts and masks cut out, and the same value
  read off the 24-bit group of RFC 4648 by division.
\<close>

lemma unat_and_mask_byte: "unat ((x::byte) AND mask n) = unat x mod 2 ^ n"
proof -
  have "unat (x AND mask n) = unat (take_bit n x)"
    by (simp only: take_bit_eq_mask)
  also have "\<dots> = take_bit n (unat x)"
    by (rule unsigned_take_bit_eq)
  also have "\<dots> = unat x mod 2 ^ n"
    by (rule take_bit_eq_mod)
  finally show ?thesis .
qed

lemma unat_push_byte: "unat (push_bit n (x::byte)) = (unat x * 2 ^ n) mod 256"
proof -
  have "unat (push_bit n x) = take_bit 8 (push_bit n (unat x))"
    using unsigned_push_bit_eq [of n x, where ?'a = nat] by simp
  also have "\<dots> = (unat x * 2 ^ n) mod 256"
    by (simp only: take_bit_eq_mod push_bit_eq_mult) simp
  finally show ?thesis .
qed

lemma unat_drop_byte: "unat (drop_bit n (x::byte)) = unat x div 2 ^ n"
proof -
  have "unat (drop_bit n x) = drop_bit n (unat x)"
    by (rule unat_drop_bit_eq)
  also have "\<dots> = unat x div 2 ^ n"
    by (rule drop_bit_eq_div)
  finally show ?thesis .
qed

lemma unat_byte_lt: "unat (x::byte) < 256"
  using unsigned_less [of x, where ?'a = nat] by simp

lemma unat_add_byte: "unat ((x::byte) + y) = (unat x + unat y) mod 256"
  by (simp add: unat_word_ariths)

lemma or_plus2: "push_bit 4 ((a::byte) AND mask 2) OR drop_bit 4 b = push_bit 4 (a AND mask 2) + drop_bit 4 (b::byte)"
proof -
  have "push_bit 4 (a AND mask 2) AND drop_bit 4 b = 0"
    apply (rule bit_word_eqI)
    subgoal for n by (cases "4 \<le> n") (auto simp add: bit_simps dest: bit_imp_le_length)
    done
  then show ?thesis by (rule disjunctive_add_eq_or [symmetric])
qed

lemma or_plus3: "push_bit 2 ((b::byte) AND mask 4) OR drop_bit 6 c = push_bit 2 (b AND mask 4) + drop_bit 6 (c::byte)"
proof -
  have "push_bit 2 (b AND mask 4) AND drop_bit 6 c = 0"
    apply (rule bit_word_eqI)
    subgoal for n by (cases "2 \<le> n") (auto simp add: bit_simps dest: bit_imp_le_length)
    done
  then show ?thesis by (rule disjunctive_add_eq_or [symmetric])
qed

lemma sextet1: "unat (drop_bit 2 (a::byte) AND 63) = unat a div 4"
  using unat_byte_lt [of a]
  by (simp only: m63 unat_and_mask_byte unat_drop_byte) simp

lemma sextet2: "unat ((push_bit 4 ((a::byte) AND 3) OR drop_bit 4 (b::byte)) AND 63) = unat a mod 4 * 16 + unat b div 16"
  using unat_byte_lt [of a] unat_byte_lt [of b]
  by (simp only: m63 m3 or_plus2 unat_and_mask_byte unat_drop_byte unat_push_byte unat_add_byte) simp

lemma sextet3: "unat ((push_bit 2 ((b::byte) AND 15) OR drop_bit 6 (c::byte)) AND 63) = unat b mod 16 * 4 + unat c div 64"
  using unat_byte_lt [of c] unat_byte_lt [of b]
  by (simp only: m63 m15 or_plus3 unat_and_mask_byte unat_drop_byte unat_push_byte unat_add_byte) simp

lemma sextet4: "unat (((c::byte) AND 63) AND 63) = unat c mod 64"
  by (simp only: m63 unat_and_mask_byte) simp

lemma sextet2_last: "unat (push_bit 4 ((a::byte) AND 3) AND 63) = unat a mod 4 * 16"
  by (simp only: m63 m3 unat_and_mask_byte unat_push_byte) simp

lemma sextet3_last: "unat (push_bit 2 ((b::byte) AND 15) AND 63) = unat b mod 16 * 4"
  by (simp only: m63 m15 unat_and_mask_byte unat_push_byte) simp

lemma div_mod_step:
  fixes q r n :: nat
  assumes "r < n"
  shows "(q * n + r) div n = q" and "(q * n + r) mod n = r"
  using assms by simp_all

lemma group3:
  fixes A B C :: nat
  assumes "A < 256" "B < 256" "C < 256"
  shows "(A * 2 ^ 16 + B * 2 ^ 8 + C) div 64 ^ 3 mod 64 = A div 4"
    and "(A * 2 ^ 16 + B * 2 ^ 8 + C) div 64 ^ 2 mod 64 = A mod 4 * 16 + B div 16"
    and "(A * 2 ^ 16 + B * 2 ^ 8 + C) div 64 ^ 1 mod 64 = B mod 16 * 4 + C div 64"
    and "(A * 2 ^ 16 + B * 2 ^ 8 + C) div 64 ^ 0 mod 64 = C mod 64"
proof -
  define a1 a0 where "a1 = A div 4" and "a0 = A mod 4"
  define b1 b0 where "b1 = B div 16" and "b0 = B mod 16"
  define c1 c0 where "c1 = C div 64" and "c0 = C mod 64"
  have A: "A = a1 * 4 + a0" and a0: "a0 < 4" and a1: "a1 < 64"
    using assms(1) by (simp_all add: a1_def a0_def)
  have B: "B = b1 * 16 + b0" and b0: "b0 < 16" and b1: "b1 < 16"
    using assms(2) by (simp_all add: b1_def b0_def)
  have C: "C = c1 * 64 + c0" and c0: "c0 < 64" and c1: "c1 < 4"
    using assms(3) by (simp_all add: c1_def c0_def)
  let ?g = "A * 2 ^ 16 + B * 2 ^ 8 + C"
  have g3: "?g = a1 * 262144 + (a0 * 65536 + B * 256 + C)"
    by (simp add: A)
  have "?g div 262144 = a1"
    unfolding g3 using a0 assms(2,3) by (intro div_mod_step(1)) simp
  then show "?g div 64 ^ 3 mod 64 = A div 4"
    using a1 by (simp add: a1_def)
  have g2: "?g = (a1 * 64 + (a0 * 16 + b1)) * 4096 + (b0 * 256 + C)"
    by (simp add: A B)
  have "?g div 4096 = a1 * 64 + (a0 * 16 + b1)"
    unfolding g2 using b0 assms(3) by (intro div_mod_step(1)) simp
  moreover have "(a1 * 64 + (a0 * 16 + b1)) mod 64 = a0 * 16 + b1"
    using a0 b1 by (intro div_mod_step(2)) simp
  ultimately show "?g div 64 ^ 2 mod 64 = A mod 4 * 16 + B div 16"
    by (simp add: a0_def b1_def)
  have g1: "?g = ((A * 16 + b1) * 64 + (b0 * 4 + c1)) * 64 + c0"
    by (simp add: B C)
  have "?g div 64 = (A * 16 + b1) * 64 + (b0 * 4 + c1)"
    unfolding g1 using c0 by (intro div_mod_step(1))
  moreover have "((A * 16 + b1) * 64 + (b0 * 4 + c1)) mod 64 = b0 * 4 + c1"
    using b0 c1 by (intro div_mod_step(2)) simp
  ultimately show "?g div 64 ^ 1 mod 64 = B mod 16 * 4 + C div 64"
    by (simp add: b0_def c1_def)
  have g0: "?g = (A * 1024 + B * 4 + c1) * 64 + c0"
    by (simp add: C)
  have "?g mod 64 = c0"
    unfolding g0 using c0 by (intro div_mod_step(2))
  then show "?g div 64 ^ 0 mod 64 = C mod 64"
    by (simp add: c0_def)
qed

lemma group2:
  fixes A B :: nat
  assumes "A < 256" "B < 256"
  shows "(A * 2 ^ 8 + B) * 2 ^ 2 div 64 ^ 2 mod 64 = A div 4"
    and "(A * 2 ^ 8 + B) * 2 ^ 2 div 64 ^ 1 mod 64 = A mod 4 * 16 + B div 16"
    and "(A * 2 ^ 8 + B) * 2 ^ 2 div 64 ^ 0 mod 64 = B mod 16 * 4"
proof -
  define a1 a0 where "a1 = A div 4" and "a0 = A mod 4"
  define b1 b0 where "b1 = B div 16" and "b0 = B mod 16"
  have A: "A = a1 * 4 + a0" and a0: "a0 < 4" and a1: "a1 < 64"
    using assms(1) by (simp_all add: a1_def a0_def)
  have B: "B = b1 * 16 + b0" and b0: "b0 < 16" and b1: "b1 < 16"
    using assms(2) by (simp_all add: b1_def b0_def)
  let ?g = "(A * 2 ^ 8 + B) * 2 ^ 2"
  have g2: "?g = a1 * 4096 + (a0 * 1024 + B * 4)"
    by (simp add: A)
  have "?g div 4096 = a1"
    unfolding g2 using a0 assms(2) by (intro div_mod_step(1)) simp
  then show "?g div 64 ^ 2 mod 64 = A div 4"
    using a1 by (simp add: a1_def)
  have g1: "?g = (a1 * 64 + (a0 * 16 + b1)) * 64 + b0 * 4"
    by (simp add: A B)
  have "?g div 64 = a1 * 64 + (a0 * 16 + b1)"
    unfolding g1 using b0 by (intro div_mod_step(1)) simp
  moreover have "(a1 * 64 + (a0 * 16 + b1)) mod 64 = a0 * 16 + b1"
    using a0 b1 by (intro div_mod_step(2)) simp
  ultimately show "?g div 64 ^ 1 mod 64 = A mod 4 * 16 + B div 16"
    by (simp add: a0_def b1_def)
  have g0: "?g = (A * 16 + b1) * 64 + b0 * 4"
    by (simp add: B)
  have "?g mod 64 = b0 * 4"
    unfolding g0 using b0 by (intro div_mod_step(2)) simp
  then show "?g div 64 ^ 0 mod 64 = B mod 16 * 4"
    by (simp add: b0_def)
qed

lemma group1:
  fixes A :: nat
  assumes "A < 256"
  shows "A * 2 ^ 4 div 64 ^ 1 mod 64 = A div 4"
    and "A * 2 ^ 4 div 64 ^ 0 mod 64 = A mod 4 * 16"
proof -
  define a1 a0 where "a1 = A div 4" and "a0 = A mod 4"
  have A: "A = a1 * 4 + a0" and a0: "a0 < 4" and a1: "a1 < 64"
    using assms(1) by (simp_all add: a1_def a0_def)
  let ?g = "A * 2 ^ 4"
  have g: "?g = a1 * 64 + a0 * 16"
    by (simp add: A)
  have "?g div 64 = a1"
    unfolding g using a0 by (intro div_mod_step(1)) simp
  then show "?g div 64 ^ 1 mod 64 = A div 4"
    using a1 by (simp add: a1_def)
  have "?g mod 64 = a0 * 16"
    unfolding g using a0 by (intro div_mod_step(2)) simp
  then show "?g div 64 ^ 0 mod 64 = A mod 4 * 16"
    by (simp add: a0_def)
qed

subsection \<open>The library's encoder computes the encoding of RFC 4648\<close>

lemma b64encode_rfc4648: "b64encode bs = rfc4648_base64 bs"
proof (induction bs rule: b64encode.induct)
  case 1
  show ?case by simp
next
  case (2 a)
  show ?case
    by (simp only: b64encode.simps rfc4648_base64.simps Let_def b64_char_def sextet_def
        sextet1 sextet2_last group1 [OF unat_byte_lt])
next
  case (3 a b)
  show ?case
    by (simp only: b64encode.simps rfc4648_base64.simps Let_def b64_char_def sextet_def
        sextet1 sextet2 sextet3_last group2 [OF unat_byte_lt unat_byte_lt])
next
  case (4 a b c rest)
  show ?case
    by (simp only: b64encode.simps rfc4648_base64.simps Let_def b64_char_def sextet_def
        sextet1 sextet2 sextet3 sextet4 group3 [OF unat_byte_lt unat_byte_lt unat_byte_lt]
        "4.IH")
qed


lemma b64encode_012: "b64encode [0, 1, 2] = ''AAEC''"
  by (simp add: b64_char_def b64_alphabet_def)

section \<open>Decoding the encoder's output\<close>

text \<open>
  C1. Round trip: for every byte sequence \<open>B\<close>, when the file named by the first
  argument holds \<open>B\<close>, decoding what the encoder wrote to standard output gives \<open>B\<close>
  back, exactly. The output ends with the newline of \<open>print\<close>, which the decoder
  skips.
\<close>

theorem encode_roundtrip:
  "fs path = Some B \<Longrightarrow>
     b64decode (stdout (encode_main fs (prog # path # extra))) = Inr B"
  by (simp add: encode_main_def stdout_def py_print_def b64decode_b64encode)

theorem encode_roundtrip_witness:
  "map_of [(''data.bin'', [0, 1, 2, 255, 254 :: byte])] ''data.bin'' = Some [0, 1, 2, 255, 254]
   \<and> b64decode (stdout (encode_main (map_of [(''data.bin'', [0, 1, 2, 255, 254])])
         [''encode_base64.py'', ''data.bin''])) = Inr [0, 1, 2, 255, 254]"
  using encode_roundtrip [of "map_of [(''data.bin'', [0, 1, 2, 255, 254])]" "''data.bin''"
      "[0, 1, 2, 255, 254]" "''encode_base64.py''" "[]"]
  by simp

section \<open>What the encoder writes for a readable file\<close>

text \<open>
  C2, as the specification states it, says that the output is the Base64 text with no
  newline after it, and the empty string for an empty file. The script prints the text
  with \<open>print\<close>, which appends a newline: for an empty file the output is one
  newline, not the empty string.
\<close>

theorem encode_empty_file_counterexample:
  "stdout (encode_main (map_of [(''empty.bin'', [])]) [''encode_base64.py'', ''empty.bin''])
     \<noteq> rfc4648_base64 []
   \<and> stdout (encode_main (map_of [(''empty.bin'', [])]) [''encode_base64.py'', ''empty.bin''])
     \<noteq> []"
  by (simp add: encode_main_def stdout_def py_print_def)

text \<open>
  C2, amended. For every readable file named by the first argument, the encoder writes
  to standard output the RFC 4648 Base64 encoding of the file's bytes followed by
  exactly one newline, and exits with code 0; for an empty file the output is the
  newline alone.
\<close>

theorem encode_output:
  "fs path = Some B \<Longrightarrow>
     stdout (encode_main fs (prog # path # extra)) = rfc4648_base64 B @ [CHR 0x0A]
     \<and> exit_code (encode_main fs (prog # path # extra)) = 0"
  by (simp add: encode_main_def stdout_def exit_code_def py_print_def newline_def
      b64encode_rfc4648)

theorem encode_output_witness:
  "map_of [(''empty.bin'', ([] :: byte list))] ''empty.bin'' = Some []
   \<and> stdout (encode_main (map_of [(''empty.bin'', [])]) [''encode_base64.py'', ''empty.bin''])
       = [CHR 0x0A]
   \<and> exit_code (encode_main (map_of [(''empty.bin'', [])])
         [''encode_base64.py'', ''empty.bin'']) = 0"
  using encode_output [of "map_of [(''empty.bin'', [])]" "''empty.bin''" "[]"
      "''encode_base64.py''" "[]"]
  by simp

section \<open>The encoder on the bytes 0, 1, 2\<close>

text \<open>
  C3, as the specification states it, says that for a file of the three bytes 0x00,
  0x01, 0x02 the output is the four characters \<open>AAEC\<close>. The output has a fifth
  character, the newline.
\<close>

theorem encode_three_bytes_counterexample:
  "stdout (encode_main (map_of [(''three.bin'', [0, 1, 2])])
     [''encode_base64.py'', ''three.bin'']) \<noteq> ''AAEC''"
  by (simp add: encode_main_def stdout_def py_print_def b64encode_012)

text \<open>
  C3, amended. When the file named by the first argument holds exactly the three bytes
  0x00, 0x01, 0x02, the encoder's output is \<open>AAEC\<close> followed by one newline.
\<close>

theorem encode_three_bytes:
  "fs path = Some [0, 1, 2] \<Longrightarrow>
     stdout (encode_main fs (prog # path # extra)) = ''AAEC'' @ [CHR 0x0A]"
  by (simp add: encode_main_def stdout_def py_print_def newline_def b64_char_def
      b64_alphabet_def)

theorem encode_three_bytes_witness:
  "map_of [(''three.bin'', [0, 1, 2 :: byte])] ''three.bin'' = Some [0, 1, 2]
   \<and> stdout (encode_main (map_of [(''three.bin'', [0, 1, 2])])
         [''encode_base64.py'', ''three.bin'']) = ''AAEC'' @ [CHR 0x0A]"
  using encode_three_bytes [of "map_of [(''three.bin'', [0, 1, 2])]" "''three.bin''"
      "''encode_base64.py''" "[]"]
  by simp

section \<open>The encoder without a path\<close>

text \<open>
  C4. With no argument (\<open>sys.argv\<close> holds the script's name only) the encoder writes
  nothing to standard output, exits with code 0, and reads no file.
\<close>

theorem encode_no_argument:
  "length argv < 2 \<Longrightarrow>
     stdout (encode_main fs argv) = [] \<and> exit_code (encode_main fs argv) = 0
     \<and> filter is_read (events (encode_main fs argv)) = []"
  by (simp add: encode_main_def stdout_def exit_code_def py_print_def)

theorem encode_no_argument_witness:
  "length [''encode_base64.py''] < 2
   \<and> stdout (encode_main (map_of []) [''encode_base64.py'']) = []
   \<and> exit_code (encode_main (map_of []) [''encode_base64.py'']) = 0
   \<and> filter is_read (events (encode_main (map_of []) [''encode_base64.py''])) = []"
  using encode_no_argument [of "[''encode_base64.py'']" "map_of []"] by simp

section \<open>The encoder on a path it cannot read\<close>

text \<open>
  C5. When the first argument names a path that cannot be opened for reading, the
  encoder ends with a non-zero exit code and has written nothing to standard output.
\<close>

theorem encode_unreadable_path:
  "fs path = None \<Longrightarrow>
     exit_code (encode_main fs (prog # path # extra)) \<noteq> 0
     \<and> stdout (encode_main fs (prog # path # extra)) = []"
  by (simp add: encode_main_def stdout_def exit_code_def)

theorem encode_unreadable_path_witness:
  "map_of [(''data.bin'', [0, 1, 2 :: byte])] ''missing.bin'' = None
   \<and> exit_code (encode_main (map_of [(''data.bin'', [0, 1, 2])])
         [''encode_base64.py'', ''missing.bin'']) \<noteq> 0
   \<and> stdout (encode_main (map_of [(''data.bin'', [0, 1, 2])])
         [''encode_base64.py'', ''missing.bin'']) = []"
  using encode_unreadable_path [of "map_of [(''data.bin'', [0, 1, 2])]" "''missing.bin''"
      "''encode_base64.py''" "[]"]
  by simp

section \<open>The encoder depends on the named file only\<close>

text \<open>
  C6. The encoder is deterministic: its standard output and its exit code are a
  function of the first argument and of what the file of that name holds. Two runs
  with the same first argument, on file systems that agree on that path, write the
  same output and end with the same exit code, whatever the script is called, whatever
  further arguments follow and whatever else the file systems hold.
\<close>

theorem encode_deterministic:
  "fs1 path = fs2 path \<Longrightarrow>
     stdout (encode_main fs1 (prog1 # path # extra1))
       = stdout (encode_main fs2 (prog2 # path # extra2))
     \<and> exit_code (encode_main fs1 (prog1 # path # extra1))
       = exit_code (encode_main fs2 (prog2 # path # extra2))"
  by (simp add: encode_main_def stdout_def exit_code_def split: option.splits)

theorem encode_deterministic_witness:
  "map_of [(''a.bin'', [1, 2 :: byte])] ''a.bin''
     = map_of [(''b.bin'', [7]), (''a.bin'', [1, 2])] ''a.bin''
   \<and> stdout (encode_main (map_of [(''a.bin'', [1, 2])]) [''enc'', ''a.bin''])
     = stdout (encode_main (map_of [(''b.bin'', [7]), (''a.bin'', [1, 2])])
         [''encode_base64.py'', ''a.bin'', ''b.bin''])
   \<and> exit_code (encode_main (map_of [(''a.bin'', [1, 2])]) [''enc'', ''a.bin''])
     = exit_code (encode_main (map_of [(''b.bin'', [7]), (''a.bin'', [1, 2])])
         [''encode_base64.py'', ''a.bin'', ''b.bin''])"
  using encode_deterministic [of "map_of [(''a.bin'', [1, 2])]" "''a.bin''"
      "map_of [(''b.bin'', [7]), (''a.bin'', [1, 2])]" "''enc''" "[]"
      "''encode_base64.py''" "[''b.bin'']"]
  by simp

section \<open>\<open>int\<close> and \<open>time.sleep\<close> on some arguments\<close>

lemma py_int_abc: "py_int (py_str ''abc'') = Inl ValueError"
  by (simp add: py_int_def py_str_def py_isspace_def unicode_spaces_def to_decimal_def
      decimal_zeros_def)

lemma py_int_no_break_space: "py_int [160, 45, 51] = Inr (- 3)"
  by (simp add: py_int_def py_isspace_def unicode_spaces_def to_decimal_def
      decimal_zeros_def int_max_str_digits_def)

lemma py_int_arabic_indic: "py_int [45, 1635] = Inr (- 3)"
  by (simp add: py_int_def py_isspace_def unicode_spaces_def to_decimal_def
      decimal_zeros_def int_max_str_digits_def)

lemma to_decimal_zero: "to_decimal 48 = Some 0"
  by (simp add: to_decimal_def decimal_zeros_def)

lemma scan_digits_zeros:
  "0 < k \<Longrightarrow> scan_digits prev (replicate k 48) v n = Some (v * 10 ^ k, n + k, [])"
proof (induction k arbitrary: prev v n)
  case 0
  then show ?case by simp
next
  case (Suc k)
  show ?case
  proof (cases "k = 0")
    case True
    then show ?thesis by (simp add: to_decimal_zero)
  next
    case False
    then have "scan_digits 48 (replicate k 48) (10 * v) (Suc n)
               = Some (10 * v * 10 ^ k, Suc n + k, [])"
      using Suc.IH [of 48 "10 * v" "Suc n"] by simp
    then show ?thesis by (simp add: to_decimal_zero)
  qed
qed

lemma py_int_too_many_digits:
  assumes "int_max_str_digits < k"
  shows "py_int (replicate k 48) = Inl ValueError"
proof -
  have k: "0 < k"
    using assms by simp
  have sp: "\<not> py_isspace 48"
    by (simp add: py_isspace_def unicode_spaces_def)
  have dw: "dropWhile py_isspace (replicate k 48) = replicate k 48"
    using sp by simp
  have hd48: "hd (replicate k 48) = (48 :: nat)"
    using k by (cases k) simp_all
  have sc: "scan_digits 0 (replicate k 48) 0 0 = Some (0, k, [])"
    using scan_digits_zeros [OF k, of 0 0 0] by simp
  show ?thesis
    using assms k by (simp add: py_int_def Let_def dw hd48 sc)
qed

section \<open>The sleeper without an argument\<close>

text \<open>
  C7. With no argument the sleeper sleeps for exactly 5 seconds, then writes the line
  \<open>done\<close> (the four letters and a newline) to standard output, and exits with code 0.
  Nothing else happens in the run.
\<close>

theorem sleeper_default:
  "length argv < 2 \<Longrightarrow>
     events (sleeper_main monotonic argv) = [Sleep 5, Write (''done'' @ [CHR 0x0A])]
     \<and> stdout (sleeper_main monotonic argv) = ''done'' @ [CHR 0x0A]
     \<and> exit_code (sleeper_main monotonic argv) = 0"
proof -
  have "uint monotonic < 2 ^ 62"
    using uint_lt2p [of monotonic] by simp
  then have "time_sleep (unat monotonic) 5 = Inr ()"
    by (simp add: time_sleep_def pysleep_def)
  then show "length argv < 2 \<Longrightarrow> ?thesis"
    by (simp add: sleeper_main_def sleeper_with_def stdout_def exit_code_def py_print_def
        newline_def)
qed

theorem sleeper_default_witness:
  "length [py_str ''test_sleep.py''] < 2
   \<and> events (sleeper_main 10672432864767 [py_str ''test_sleep.py''])
       = [Sleep 5, Write (''done'' @ [CHR 0x0A])]
   \<and> stdout (sleeper_main 10672432864767 [py_str ''test_sleep.py'']) = ''done'' @ [CHR 0x0A]
   \<and> exit_code (sleeper_main 10672432864767 [py_str ''test_sleep.py'']) = 0"
  using sleeper_default [of "[py_str ''test_sleep.py'']" 10672432864767] by simp

section \<open>The sleeper on an argument that is not an integer\<close>

text \<open>
  C8. When the first argument does not parse as an integer, the sleeper ends with a
  non-zero exit code; it has not slept and has written nothing to standard output, so
  \<open>done\<close> is not printed. This holds whatever \<open>int\<close> accepts and whatever
  \<open>time.sleep\<close> does: \<open>int_of\<close> is any function from arguments to an integer or an
  error, and the theorem is about every argument on which it gives an error.
\<close>

theorem sleeper_not_an_integer:
  "int_of arg = Inl e \<Longrightarrow>
     exit_code (sleeper_with int_of sleep (prog # arg # extra)) \<noteq> 0
     \<and> stdout (sleeper_with int_of sleep (prog # arg # extra)) = []
     \<and> events (sleeper_with int_of sleep (prog # arg # extra)) = []"
  by (simp add: sleeper_with_def stdout_def exit_code_def)

theorem sleeper_not_an_integer_witness:
  "py_int (py_str ''abc'') = Inl ValueError
   \<and> exit_code (sleeper_main 10672432864767 [py_str ''test_sleep.py'', py_str ''abc'']) \<noteq> 0
   \<and> stdout (sleeper_main 10672432864767 [py_str ''test_sleep.py'', py_str ''abc'']) = []
   \<and> events (sleeper_main 10672432864767 [py_str ''test_sleep.py'', py_str ''abc'']) = []"
  using sleeper_not_an_integer [of py_int "py_str ''abc''" ValueError
      "time_sleep (unat (10672432864767 :: 62 word))" "py_str ''test_sleep.py''" "[]"]
    py_int_abc
  by (simp add: sleeper_main_def)

section \<open>The sleeper on a negative duration\<close>

text \<open>
  C9. When the first argument parses as a negative integer, the sleep is refused: the
  sleeper ends with a non-zero exit code and \<open>done\<close> is not printed (nothing is
  written to standard output). This holds whatever \<open>int\<close> accepts, for every argument
  it reads as a negative number, and at every reading of the clock.
\<close>

theorem sleeper_negative:
  "int_of arg = Inr n \<Longrightarrow> n < 0 \<Longrightarrow>
     exit_code (sleeper_with int_of (time_sleep monotonic) (prog # arg # extra)) \<noteq> 0
     \<and> stdout (sleeper_with int_of (time_sleep monotonic) (prog # arg # extra)) = []"
  by (simp add: sleeper_with_def time_sleep_def stdout_def exit_code_def)

theorem sleeper_negative_witness:
  "py_int [160, 45, 51] = Inr (- 3) \<and> (- 3 :: int) < 0
   \<and> exit_code (sleeper_main 10672432864767 [py_str ''test_sleep.py'', [160, 45, 51]]) \<noteq> 0
   \<and> stdout (sleeper_main 10672432864767 [py_str ''test_sleep.py'', [160, 45, 51]]) = []"
  using sleeper_negative [of py_int "[160, 45, 51]" "- 3"
      "unat (10672432864767 :: 62 word)" "py_str ''test_sleep.py''" "[]"]
    py_int_no_break_space
  by (simp add: sleeper_main_def)

section \<open>Arguments after the first\<close>

text \<open>
  C10. Both scripts look at the first argument only: a run with two or more arguments
  is the run with the first argument alone (the same effects in the same order and the
  same end), for the encoder on every file system and for the sleeper at every reading
  of the clock.
\<close>

theorem extra_arguments_ignored:
  "encode_main fs (prog # arg # extra) = encode_main fs [prog, arg]
   \<and> sleeper_main monotonic (script # duration # others)
     = sleeper_main monotonic [script, duration]"
  by (simp add: encode_main_def sleeper_main_def sleeper_with_def)

theorem extra_arguments_ignored_witness:
  "encode_main (map_of [(''three.bin'', [0, 1, 2])])
       [''encode_base64.py'', ''three.bin'', ''other.bin'', ''7'']
     = encode_main (map_of [(''three.bin'', [0, 1, 2])]) [''encode_base64.py'', ''three.bin'']
   \<and> sleeper_main 10672432864767 [py_str ''test_sleep.py'', py_str ''0'', py_str ''abc'']
     = sleeper_main 10672432864767 [py_str ''test_sleep.py'', py_str ''0'']"
  using extra_arguments_ignored [of "map_of [(''three.bin'', [0, 1, 2])]"
      "''encode_base64.py''" "''three.bin''" "[''other.bin'', ''7'']"
      10672432864767 "py_str ''test_sleep.py''" "py_str ''0''" "[py_str ''abc'']"]
  by simp

end
